theory Spec2Isabelle
  imports Main "HOL-Library.Sublist"
begin

text \<open>
  A model of the voice assistant of \<open>Friday.py\<close> and \<open>music_library.py\<close>: the
  calculator, the reminders, the conversation context, the command router and the
  session loop, each written after the method of the same name, followed by the
  properties proved of them.
\<close>

section \<open>Python string primitives used by Friday.py\<close>

text \<open>
  Strings are modelled as \<open>char list\<close> and are assumed to hold ASCII text (the
  recogniser is configured for English). Each primitive below follows the behaviour of
  the Python \<open>str\<close> method of the same name.
\<close>

text \<open>\<open>sub in s\<close> on strings: \<open>sub\<close> occurs as a contiguous block of \<open>s\<close>.\<close>

fun str_in :: "string \<Rightarrow> string \<Rightarrow> bool" where
  "str_in sub [] = (sub = [])"
| "str_in sub (c # cs) = (prefix sub (c # cs) \<or> str_in sub cs)"

text \<open>\<open>any(k in s for k in keys)\<close>.\<close>

definition any_in :: "string list \<Rightarrow> string \<Rightarrow> bool" where
  "any_in keys s = list_ex (\<lambda>k. str_in k s) keys"

text \<open>\<open>s.startswith(p)\<close>.\<close>

definition startswith :: "string \<Rightarrow> string \<Rightarrow> bool" where
  "startswith s p = prefix p s"

text \<open>
  \<open>s.replace(old, new)\<close>: every non-overlapping occurrence of \<open>old\<close>, scanning from
  the left, is replaced. With an empty \<open>old\<close> Python inserts \<open>new\<close> before every
  character and at the end.
\<close>

function replace_ne :: "string \<Rightarrow> string \<Rightarrow> string \<Rightarrow> string" where
  "replace_ne old new [] = []"
| "replace_ne old new (c # cs) =
     (if old \<noteq> [] \<and> prefix old (c # cs)
      then new @ replace_ne old new (drop (length old) (c # cs))
      else c # replace_ne old new cs)"
  by pat_completeness auto
termination
  by (relation "measure (\<lambda>(old, new, s). length s)") (auto simp: neq_Nil_conv)

definition replace_str :: "string \<Rightarrow> string \<Rightarrow> string \<Rightarrow> string" where
  "replace_str old new s =
     (if old = [] then new @ concat (map (\<lambda>c. c # new) s) else replace_ne old new s)"

text \<open>The characters \<open>str.isspace\<close> accepts among the first 256 code points.\<close>

definition isspace :: "char \<Rightarrow> bool" where
  "isspace c = (let n = (of_char c :: nat) in
     (9 \<le> n \<and> n \<le> 13) \<or> (28 \<le> n \<and> n \<le> 32) \<or> n = 133 \<or> n = 160)"

text \<open>\<open>s.strip()\<close>.\<close>

definition strip :: "string \<Rightarrow> string" where
  "strip s = rev (dropWhile isspace (rev (dropWhile isspace s)))"

text \<open>\<open>s.lower()\<close> on ASCII text.\<close>

definition lower_char :: "char \<Rightarrow> char" where
  "lower_char c =
     (case map_of (zip ''ABCDEFGHIJKLMNOPQRSTUVWXYZ'' ''abcdefghijklmnopqrstuvwxyz'') c of
        Some l \<Rightarrow> l | None \<Rightarrow> c)"

definition lower :: "string \<Rightarrow> string" where
  "lower s = map lower_char s"

text \<open>\<open>s.split()\<close>: the maximal runs of non-whitespace characters.\<close>

fun split_acc :: "string \<Rightarrow> string \<Rightarrow> string list" where
  "split_acc cur [] = (if cur = [] then [] else [rev cur])"
| "split_acc cur (c # cs) =
     (if isspace c then (if cur = [] then split_acc [] cs else rev cur # split_acc [] cs)
      else split_acc (c # cur) cs)"

definition split :: "string \<Rightarrow> string list" where
  "split s = split_acc [] s"

definition isdigit :: "char \<Rightarrow> bool" where
  "isdigit c = (c \<in> set ''0123456789'')"

definition digit_val :: "char \<Rightarrow> nat" where
  "digit_val c = (case map_of (zip ''0123456789'' [0, 1, 2, 3, 4, 5, 6, 7, 8, 9]) c of
     Some d \<Rightarrow> d | None \<Rightarrow> 0)"

text \<open>\<open>int(ds)\<close> for a string of decimal digits.\<close>

definition nat_of_digits :: "string \<Rightarrow> nat" where
  "nat_of_digits ds = foldl (\<lambda>n c. 10 * n + digit_val c) 0 ds"

text \<open>\<open>str(n)\<close> for integers, as f-strings format them.\<close>

fun show_nat :: "nat \<Rightarrow> string" where
  "show_nat n =
     (if n < 10 then [''0123456789'' ! n] else show_nat (n div 10) @ [''0123456789'' ! (n mod 10)])"

declare show_nat.simps [simp del]

definition show_int :: "int \<Rightarrow> string" where
  "show_int i = (if i < 0 then CHR ''-'' # show_nat (nat (- i)) else show_nat (nat i))"

section \<open>The expression evaluator behind \<open>eval\<close>\<close>

text \<open>
  \<open>voice_calculator\<close> hands its normalised string to Python's \<open>eval\<close>, which runs in
  the scope of the method. \<open>eval\<close> is part of the language, not of this repository, so
  it is modelled in two layers.

  \<^item> A concrete fragment, where the result is fixed by the language definition:
    flat integer arithmetic \<open>n op n op ... n\<close> with \<open>+\<close>, \<open>-\<close>, \<open>*\<close> and blanks;
    a source whose first non-arithmetic character is a letter glued to a decimal
    literal (\<open>9teen\<close>), which no Python 3 grammar accepts; and a source that is exactly
    the name of one of the string-valued local variables of the method.
  \<^item> Everything else is left to a parameter \<open>host\<close>, which says for each source string
    whether evaluation returns an object (given by the text \<open>str\<close> shows for it),
    raises a subclass of \<open>Exception\<close>, or raises an exception outside \<open>Exception\<close>
    (\<open>SystemExit\<close>, \<open>KeyboardInterrupt\<close>), which \<open>except Exception\<close> does not catch.
\<close>

datatype pyval = PyInt int | PyStr string | PyObject string

datatype eval_outcome =
    Value pyval
  | Raises string
  | Escapes string

datatype host_outcome =
    HostShows string
  | HostRaises string
  | HostEscapes string

fun from_host :: "host_outcome \<Rightarrow> eval_outcome" where
  "from_host (HostShows t) = Value (PyObject t)"
| "from_host (HostRaises e) = Raises e"
| "from_host (HostEscapes e) = Escapes e"

datatype token = TInt nat | TPlus | TMinus | TStar

datatype lex_result = Tokens "token list" | Invalid_Literal | Not_Covered

fun tcons :: "token \<Rightarrow> lex_result \<Rightarrow> lex_result" where
  "tcons t (Tokens ts) = Tokens (t # ts)"
| "tcons t Invalid_Literal = Invalid_Literal"
| "tcons t Not_Covered = Not_Covered"

text \<open>
  Letters that can neither continue a numeric literal (\<open>e\<close>, \<open>j\<close>, \<open>x\<close>, \<open>o\<close>, \<open>b\<close>,
  \<open>l\<close>) nor start a keyword that may follow a number in an expression (\<open>and\<close>, \<open>as\<close>,
  \<open>else\<close>, \<open>for\<close>, \<open>if\<close>, \<open>in\<close>, \<open>is\<close>, \<open>not\<close>, \<open>or\<close>): a decimal literal directly
  followed by one of them is a syntax error.
\<close>

definition glued_letter :: "char \<Rightarrow> bool" where
  "glued_letter c = (c \<in> set ''cdghkmpqrtuvwyz'')"

definition arith_char :: "char \<Rightarrow> bool" where
  "arith_char c = (isdigit c \<or> c \<in> set '' +-*'')"

function lex :: "string \<Rightarrow> lex_result" where
  "lex [] = Tokens []"
| "lex (c # cs) =
     (if c = CHR '' '' then lex cs
      else if c = CHR ''+'' then tcons TPlus (lex cs)
      else if c = CHR ''-'' then tcons TMinus (lex cs)
      else if c = CHR ''*'' then
        (case cs of
           d # _ \<Rightarrow> if d = CHR ''*'' then Not_Covered else tcons TStar (lex cs)
         | [] \<Rightarrow> tcons TStar (lex cs))
      else if isdigit c then
        (let ds = c # takeWhile isdigit cs; rest = dropWhile isdigit cs in
         if (case rest of r # _ \<Rightarrow> glued_letter r | [] \<Rightarrow> False) then Invalid_Literal
         else if (case rest of r # _ \<Rightarrow> \<not> arith_char r | [] \<Rightarrow> False) then Not_Covered
         else if c = CHR ''0'' \<and> length ds > 1 then Not_Covered
         else tcons (TInt (nat_of_digits ds)) (lex rest))
      else Not_Covered)"
  by pat_completeness auto
termination
  by (relation "measure length") (auto simp: length_dropWhile_le less_Suc_eq_le)

text \<open>
  Value of a flat chain: \<open>s\<close> is the sum of the terms already closed, \<open>p\<close> the signed
  product being built (\<open>*\<close> binds tighter than \<open>+\<close> and \<open>-\<close>, all associate to the left).
\<close>

fun eval_chain :: "int \<Rightarrow> int \<Rightarrow> token list \<Rightarrow> int option" where
  "eval_chain s p [] = Some (s + p)"
| "eval_chain s p (TPlus # TInt n # ts) = eval_chain (s + p) (int n) ts"
| "eval_chain s p (TMinus # TInt n # ts) = eval_chain (s + p) (- int n) ts"
| "eval_chain s p (TStar # TInt n # ts) = eval_chain s (p * int n) ts"
| "eval_chain s p ts = None"

fun arith :: "token list \<Rightarrow> int option" where
  "arith (TInt n # ts) = eval_chain 0 (int n) ts"
| "arith ts = None"

text \<open>
  Sources longer than 4300 characters are left to the host: from there on the
  interpreter's limit on integer/string conversion decides, which differs by version.
\<close>

definition py_eval ::
  "(string \<Rightarrow> host_outcome) \<Rightarrow> (string \<times> string) list \<Rightarrow> string \<Rightarrow> eval_outcome" where
  "py_eval host locals src =
     (if length src \<le> 4300 then
        (case lex src of
           Invalid_Literal \<Rightarrow> Raises ''SyntaxError''
         | Tokens ts \<Rightarrow>
             (case arith ts of Some n \<Rightarrow> Value (PyInt n) | None \<Rightarrow> from_host (host src))
         | Not_Covered \<Rightarrow>
             (case map_of locals src of
                Some v \<Rightarrow> Value (PyStr v)
              | None \<Rightarrow> from_host (host src)))
      else from_host (host src))"

fun format_value :: "pyval \<Rightarrow> string" where
  "format_value (PyInt n) = show_int n"
| "format_value (PyStr s) = s"
| "format_value (PyObject t) = t"

section \<open>\<open>voice_calculator\<close>\<close>

definition word_to_num :: "(string \<times> string) list" where
  "word_to_num =
     [(''zero'', ''0''), (''one'', ''1''), (''two'', ''2''), (''three'', ''3''), (''four'', ''4''),
      (''five'', ''5''), (''six'', ''6''), (''seven'', ''7''), (''eight'', ''8''), (''nine'', ''9''),
      (''ten'', ''10''), (''eleven'', ''11''), (''twelve'', ''12''), (''thirteen'', ''13''),
      (''fourteen'', ''14''), (''fifteen'', ''15''), (''sixteen'', ''16''), (''seventeen'', ''17''),
      (''eighteen'', ''18''), (''nineteen'', ''19''), (''twenty'', ''20'')]"

text \<open>Lines 341 to 347: filler words and operator words.\<close>

definition operator_words :: "string \<Rightarrow> string" where
  "operator_words expression =
     (let expression = strip (replace_str ''what is'' '''' (replace_str ''calculate'' '''' expression));
          expression = replace_str ''add'' ''+'' (replace_str ''plus'' ''+'' expression);
          expression = replace_str ''subtract'' ''-'' (replace_str ''minus'' ''-'' expression);
          expression = replace_str ''multiply'' ''*'' (replace_str ''times'' ''*'' expression);
          expression = replace_str ''divide'' ''/'' (replace_str ''divided by'' ''/'' expression);
          expression = replace_str ''squared'' ''**2'' (replace_str ''to the power of'' ''**'' expression);
          expression = replace_str ''cubed'' ''**3'' expression
      in expression)"

text \<open>Lines 358 and 359: the loop over \<open>word_to_num.items()\<close>, in insertion order.\<close>

definition number_words :: "string \<Rightarrow> string" where
  "number_words expression = foldl (\<lambda>e (word, num). replace_str word num e) expression word_to_num"

definition normalize :: "string \<Rightarrow> string" where
  "normalize expression = number_words (operator_words expression)"

definition calc_failure :: string where
  "calc_failure = ''I couldn't calculate that. Please try rephrasing the math problem.''"

text \<open>
  The string-valued locals \<open>eval\<close> sees: \<open>expression\<close> itself and the loop variables,
  which keep the last pair of the dictionary.
\<close>

definition calc_locals :: "string \<Rightarrow> (string \<times> string) list" where
  "calc_locals expression =
     [(''expression'', expression),
      (''word'', fst (last word_to_num)),
      (''num'', snd (last word_to_num))]"

text \<open>
  The result is \<open>Inr\<close> the returned string, or \<open>Inl\<close> the name of an exception that
  leaves the method because \<open>except Exception\<close> does not catch it.
\<close>

definition voice_calculator :: "(string \<Rightarrow> host_outcome) \<Rightarrow> string \<Rightarrow> string + string" where
  "voice_calculator host expression =
     (let expression = normalize expression in
      case py_eval host (calc_locals expression) expression of
        Value result \<Rightarrow> Inr (''The answer is '' @ format_value result)
      | Raises e \<Rightarrow> Inr calc_failure
      | Escapes e \<Rightarrow> Inl e)"

section \<open>The assistant: state, collaborators and effects\<close>

text \<open>
  What the assistant does to the outside world is recorded, in order, in a trace:
  a call of \<open>speak\<close>, of \<open>webbrowser.open\<close> or of \<open>pyautogui.press\<close>. The
  collaborators are taken to complete their calls; what they answer is input.
\<close>

datatype effect =
    Speak string
  | OpenUrl string
  | PressKey string nat

text \<open>What one call of the recogniser inside \<open>listen\<close> does.\<close>

datatype listen_event =
    Recognized string
  | WaitTimeoutError
  | UnknownValueError
  | RequestError
  | OtherListenError

text \<open>
  The answer of \<open>llama_client.chat\<close>: a dictionary with a \<open>message\<close> entry (given
  by its content), any other object (given by its \<open>str\<close>), or an exception.
\<close>

datatype chat_response =
    ChatMessage string
  | ChatOther string
  | ChatFails

text \<open>The answer of the weather service, as \<open>get_weather\<close> reads it.\<close>

datatype weather_reply =
    WeatherData string string string
  | WeatherNotFound
  | WeatherFails

text \<open>
  The fields of \<open>VoiceFridayAssistant\<close> that the methods read or write, extended by
  the recogniser outcomes still to come (\<open>heard\<close>), the trace of effects, and the
  reminder threads started so far, each with the seconds it sleeps and its arguments.
\<close>

record assistant =
  is_listening :: bool
  conversation_context :: "(string \<times> string) list"
  llama_client :: bool
  active_reminders :: "(string \<times> int) list"
  reminder_threads :: "(int \<times> string \<times> int) list"
  heard :: "listen_event list"
  trace :: "effect list"

text \<open>The module-level flags and the collaborators' answers.\<close>

record world =
  PYAUTOGUI_AVAILABLE :: bool
  WIKIPEDIA_AVAILABLE :: bool
  REQUESTS_AVAILABLE :: bool
  chat :: "(string \<times> string) list \<Rightarrow> chat_response"
  wikipedia_summary :: "string \<Rightarrow> string option"
  requests_get :: "string \<Rightarrow> weather_reply"
  host_eval :: "string \<Rightarrow> host_outcome"
  clock_time :: string
  clock_date :: string

text \<open>The dictionary of \<open>music_library.py\<close>.\<close>

definition music :: "(string \<times> string) list" where
  "music =
     [(''shape of you'', ''https://youtu.be/JGwWNGJdvx8''),
      (''blinding lights'', ''https://youtu.be/4NRXx6U8ABQ''),
      (''perfect'', ''https://youtu.be/2Vv-BfVoq4g''),
      (''someone like you'', ''https://youtu.be/hLQl3WQQoQ0''),
      (''despacito'', ''https://youtu.be/kJQP7kiw5Fk''),
      (''bad guy'', ''https://youtu.be/DyDfgMOUjCI''),
      (''uptown funk'', ''https://youtu.be/OPf0YbXqDm0''),
      (''hello'', ''https://youtu.be/YQHsXMglC9A''),
      (''thinking out loud'', ''https://youtu.be/lp-EO5I60KA''),
      (''rolling in the deep'', ''https://youtu.be/rYEDA3JcQqw''),
      (''tum hi ho'', ''https://youtu.be/IJq0yyWug1k''),
      (''kal ho na ho'', ''https://youtu.be/tVMAQAsjsOU''),
      (''gerua'', ''https://youtu.be/AEIVhBS6baE''),
      (''channa mereya'', ''https://youtu.be/bzSTpdcs-EI''),
      (''ae dil hai mushkil'', ''https://youtu.be/8wU29tAcVys''),
      (''raabta'', ''https://youtu.be/eHJPVRBV3nM''),
      (''dil diyan gallan'', ''https://youtu.be/SAcpESN_Fk4''),
      (''ishq wala love'', ''https://youtu.be/3HdGNBT6fa8''),
      (''gulabi aankhein'', ''https://youtu.be/5M7aVNKffys''),
      (''kabira'', ''https://youtu.be/jHNNMj5bNQw''),
      (''bohemian rhapsody'', ''https://youtu.be/fJ9rUzIMcZQ''),
      (''imagine'', ''https://youtu.be/YkgkThdzX-8''),
      (''hotel california'', ''https://youtu.be/BciS5krYL80''),
      (''sweet child of mine'', ''https://youtu.be/1w7OgIMMRc4''),
      (''stairway to heaven'', ''https://youtu.be/QkF3oxziUI4''),
      (''as it was'', ''https://youtu.be/H5v3kku4y6Q''),
      (''heat waves'', ''https://youtu.be/mRD0-GxqHVo''),
      (''stay'', ''https://youtu.be/kTJczUoc26U''),
      (''levitating'', ''https://youtu.be/TUVcZfQe-Kw''),
      (''good 4 u'', ''https://youtu.be/gNi_6U5Pm_o''),
      (''lofi hip hop'', ''https://youtu.be/jfKfPfyJRdk''),
      (''chill music'', ''https://youtu.be/5qap5aO4i9A''),
      (''study music'', ''https://youtu.be/7NOSDKb0HlU''),
      (''my playlist'', ''https://youtu.be/AbkEmIgJMcU?si=V6ETJmVWDU2zOEtq''),
      (''workout playlist'', ''https://youtu.be/iFGc9vpN338''),
      (''party songs'', ''https://youtu.be/ZbZSe6N_BXs''),
      (''romantic songs'', ''https://youtu.be/IJq0yyWug1k'')]"

subsection \<open>\<open>speak\<close> and \<open>listen\<close>\<close>

definition speak :: "string \<Rightarrow> assistant \<Rightarrow> assistant" where
  "speak text st = st\<lparr>trace := trace st @ [Speak text]\<rparr>"

text \<open>
  \<open>listen\<close> takes the next recogniser outcome; when none is left nobody speaks, which
  is the recogniser's wait timeout.
\<close>

definition listen :: "assistant \<Rightarrow> string \<times> assistant" where
  "listen st =
     (case heard st of
        [] \<Rightarrow> (''timeout'', st)
      | ev # rest \<Rightarrow>
          (let st = st\<lparr>heard := rest\<rparr> in
           case ev of
             Recognized command \<Rightarrow> (strip (lower command), st)
           | WaitTimeoutError \<Rightarrow> (''timeout'', st)
           | UnknownValueError \<Rightarrow>
               ([], speak ''I couldn't understand that. Please try again.'' st)
           | RequestError \<Rightarrow> ([], speak ''Speech service is unavailable right now.'' st)
           | OtherListenError \<Rightarrow> ([], st)))"

subsection \<open>\<open>ask_llama\<close>\<close>

definition fallback_responses :: "(string \<times> string) list" where
  "fallback_responses =
     [(''hello'', ''Hello! I'm Friday, your voice assistant. How can I help you today?''),
      (''how are you'', ''I'm doing great and ready to help you with anything you need!''),
      (''what can you do'',
       ''I can help with opening websites, telling time, weather updates, calculations, reminders, and much more!''),
      (''default'',
       ''I'm sorry, my AI brain isn't fully connected right now, but I can still help with basic tasks like opening websites, telling time, and controlling your system.'')]"

definition system_prompts :: "(string \<times> string) list" where
  "system_prompts =
     [(''general'',
       ''You are Friday, a helpful voice assistant. Give concise, conversational responses suitable for text-to-speech. Keep responses under 100 words unless specifically asked for detailed information. Be friendly and natural.''),
      (''task'',
       ''You are Friday, a voice assistant helping with tasks. Provide step-by-step instructions clearly and concisely for voice delivery.''),
      (''creative'',
       ''You are Friday, a creative voice assistant. Provide engaging, imaginative content suitable for audio delivery.'')]"

text \<open>\<open>xs[-n:]\<close> for a positive \<open>n\<close>.\<close>

definition last_n :: "nat \<Rightarrow> 'a list \<Rightarrow> 'a list" where
  "last_n n xs = drop (length xs - n) xs"

text \<open>Lines 281 to 287: the two appends and the cut to the last 20 entries.\<close>

definition update_context ::
  "string \<Rightarrow> string \<Rightarrow> (string \<times> string) list \<Rightarrow> (string \<times> string) list" where
  "update_context question ai_response ctx =
     (let ctx = ctx @ [(''user'', question)];
          ctx = ctx @ [(''assistant'', ai_response)]
      in if length ctx > 20 then last_n 20 ctx else ctx)"

text \<open>Lines 249 to 264: the request sent to the model.\<close>

definition chat_messages :: "assistant \<Rightarrow> string \<Rightarrow> string \<Rightarrow> (string \<times> string) list" where
  "chat_messages st question context_type =
     (let system_prompt =
            (case map_of system_prompts context_type of
               Some p \<Rightarrow> p
             | None \<Rightarrow> the (map_of system_prompts ''general''))
      in [(''system'', system_prompt)]
         @ last_n 6 (conversation_context st)
         @ [(''user'', question)])"

definition ask_llama :: "world \<Rightarrow> assistant \<Rightarrow> string \<Rightarrow> string \<Rightarrow> string \<times> assistant" where
  "ask_llama env st question context_type =
     (if \<not> llama_client st then
        (let question_lower = lower question in
         case find (\<lambda>(key, response). str_in key question_lower) fallback_responses of
           Some (key, response) \<Rightarrow> (response, st)
         | None \<Rightarrow> (the (map_of fallback_responses ''default''), st))
      else
        (case chat env (chat_messages st question context_type) of
           ChatFails \<Rightarrow>
             (''I'm having trouble connecting to my AI brain right now, but I'm still here to help with other tasks!'',
              st)
         | ChatMessage content \<Rightarrow>
             (let ai_response = strip content in
              (ai_response,
               st\<lparr>conversation_context :=
                    update_context question ai_response (conversation_context st)\<rparr>))
         | ChatOther shown \<Rightarrow>
             (let ai_response = strip shown in
              (ai_response,
               st\<lparr>conversation_context :=
                    update_context question ai_response (conversation_context st)\<rparr>))))"

subsection \<open>\<open>get_weather\<close>\<close>

text \<open>
  The method with its local \<open>api_key\<close> as a parameter; the second component lists the
  URLs requested from the network.
\<close>

definition get_weather_with :: "string \<Rightarrow> world \<Rightarrow> string \<Rightarrow> string \<times> string list" where
  "get_weather_with api_key env city =
     (if \<not> REQUESTS_AVAILABLE env then
        (''Weather service requires the requests package. Please install it.'', [])
      else if api_key = ''YOUR_WEATHER_API_KEY'' then
        (''Please configure weather API key for weather updates.'', [])
      else
        (let base_url = ''http://api.openweathermap.org/data/2.5/weather?'';
             complete_url = base_url @ ''appid='' @ api_key @ ''&q='' @ city @ ''&units=metric''
         in case requests_get env complete_url of
              WeatherData weather temperature feels_like \<Rightarrow>
                (''Weather in '' @ city @ '': '' @ weather @ '', '' @ temperature
                   @ '' degrees, feels like '' @ feels_like @ '' degrees.'',
                 [complete_url])
            | WeatherNotFound \<Rightarrow>
                (''Sorry, I couldn't find weather information for '' @ city @ ''.'', [complete_url])
            | WeatherFails \<Rightarrow> (''Weather service is currently unavailable.'', [complete_url])))"

text \<open>Line 302: the key written in the source.\<close>

definition get_weather :: "world \<Rightarrow> string \<Rightarrow> string \<times> string list" where
  "get_weather env city = get_weather_with ''YOUR_WEATHER_API_KEY'' env city"

subsection \<open>\<open>set_reminder_voice\<close>\<close>


definition set_reminder_voice :: "string \<Rightarrow> int \<Rightarrow> assistant \<Rightarrow> string \<times> assistant" where
  "set_reminder_voice reminder_text minutes st =
     (let st = st\<lparr>active_reminders := active_reminders st @ [(reminder_text, minutes)]\<rparr>;
          st = st\<lparr>reminder_threads :=
                    reminder_threads st @ [(minutes * 60, reminder_text, minutes)]\<rparr>
      in (''Reminder set for '' @ show_int minutes @ '' minutes: '' @ reminder_text, st))"

section \<open>\<open>handle_voice_command\<close>\<close>

text \<open>\<open>re.search(r'\d+', s)\<close>: the first maximal run of digits, if there is one.\<close>

definition first_digits :: "string \<Rightarrow> string option" where
  "first_digits s =
     (let ds = takeWhile isdigit (dropWhile (\<lambda>c. \<not> isdigit c) s)
      in if ds = [] then None else Some ds)"

text \<open>Lines 415 to 421: the word after the first \<open>in\<close>, else Delhi.\<close>

definition weather_city :: "string \<Rightarrow> string" where
  "weather_city command =
     (let city = ''Delhi'' in
      if str_in ''in'' command then
        (let words = split command in
         if ''in'' \<in> set words then
           (let city_index = length (takeWhile (\<lambda>w. w \<noteq> ''in'') words) + 1 in
            if city_index < length words then words ! city_index else city)
         else city)
      else city)"

text \<open>Lines 520 to 524: the context type handed to \<open>ask_llama\<close>.\<close>

definition context_type_of :: "string \<Rightarrow> string" where
  "context_type_of command =
     (if any_in [''how to'', ''steps'', ''guide'', ''tutorial''] command then ''task''
      else if any_in [''story'', ''poem'', ''creative'', ''imagine''] command then ''creative''
      else ''general'')"

text \<open>Lines 453 to 475: the three system-control branches share this shape.\<close>

definition press_or_apologise :: "world \<Rightarrow> string \<Rightarrow> nat \<Rightarrow> string \<Rightarrow> assistant \<Rightarrow> assistant" where
  "press_or_apologise env key presses said st =
     (if PYAUTOGUI_AVAILABLE env
      then speak said (st\<lparr>trace := trace st @ [PressKey key presses]\<rparr>)
      else speak ''System control not available'' st)"

definition open_url :: "string \<Rightarrow> assistant \<Rightarrow> assistant" where
  "open_url url st = st\<lparr>trace := trace st @ [OpenUrl url]\<rparr>"

text \<open>
  A branch gives the new state together with \<open>Inr\<close> the returned token, or \<open>Inl\<close>
  the name of an exception that leaves the method (only the calculator branch can let
  one through). The bodies of the longer branches come first, each under the lines it
  is taken from.
\<close>

type_synonym handled = "(string + string) \<times> assistant"

text \<open>Lines 395 to 400.\<close>

definition google_branch :: "assistant \<Rightarrow> handled" where
  "google_branch st =
     (let st = speak ''What would you like me to search for?'' st;
          (search_query, st) = listen st
      in if search_query \<noteq> [] \<and> search_query \<noteq> ''timeout'' then
           (Inr ''continue'',
            speak (''Searching Google for '' @ search_query)
              (open_url (''https://www.google.com/search?q='' @ search_query) st))
         else (Inr ''continue'', st))"

text \<open>Lines 415 to 425.\<close>

definition weather_branch :: "world \<Rightarrow> assistant \<Rightarrow> string \<Rightarrow> handled" where
  "weather_branch env st command =
     (let city = weather_city command;
          weather_info = fst (get_weather env city)
      in (Inr ''continue'', speak weather_info st))"

text \<open>Lines 429 to 431.\<close>

definition calculator_branch :: "world \<Rightarrow> assistant \<Rightarrow> string \<Rightarrow> handled" where
  "calculator_branch env st command =
     (case voice_calculator (host_eval env) command of
        Inr result \<Rightarrow> (Inr ''continue'', speak result st)
      | Inl e \<Rightarrow> (Inl e, st))"

text \<open>Lines 435 to 450.\<close>

definition reminder_branch :: "assistant \<Rightarrow> handled" where
  "reminder_branch st =
     (let st = speak ''What should I remind you about?'' st;
          (reminder_text, st) = listen st
      in if reminder_text \<noteq> [] \<and> reminder_text \<noteq> ''timeout'' then
           (let st = speak ''In how many minutes?'' st;
                (time_input, st) = listen st
            in case first_digits time_input of
                 Some ds \<Rightarrow>
                   (let minutes = int (nat_of_digits ds);
                        (result, st) = set_reminder_voice reminder_text minutes st
                    in (Inr ''continue'', speak result st))
               | None \<Rightarrow>
                   (Inr ''continue'',
                    speak ''I didn't understand the time. Please try again.'' st))
         else (Inr ''continue'', st))"

text \<open>Lines 479 to 500.\<close>

definition wikipedia_branch :: "world \<Rightarrow> assistant \<Rightarrow> string \<Rightarrow> handled" where
  "wikipedia_branch env st command =
     (let topic = strip (replace_str ''information about'' []
                          (replace_str ''tell me about'' [] command));
          (topic, st) =
            (if topic = [] then listen (speak ''What would you like to know about?'' st)
             else (topic, st))
      in if topic \<noteq> [] \<and> topic \<noteq> ''timeout'' then
           (if WIKIPEDIA_AVAILABLE env then
              (case wikipedia_summary env topic of
                 Some info \<Rightarrow> (Inr ''continue'', speak info st)
               | None \<Rightarrow>
                   (if llama_client st then
                      (let (response, st) = ask_llama env st (''Tell me about '' @ topic) ''general''
                       in (Inr ''continue'', speak response st))
                    else
                      (Inr ''continue'',
                       speak (''I don't have detailed information about '' @ topic @ '' right now.'')
                         st)))
            else
              (let (response, st) = ask_llama env st (''Tell me about '' @ topic) ''general''
               in (Inr ''continue'', speak response st)))
         else (Inr ''continue'', st))"

text \<open>Lines 504 to 515.\<close>

definition play_branch :: "assistant \<Rightarrow> string \<Rightarrow> handled" where
  "play_branch st command =
     (let song = strip (replace_str ''play'' [] command) in
      case map_of music song of
        Some url \<Rightarrow> (Inr ''continue'', speak (''Playing '' @ song) (open_url url st))
      | None \<Rightarrow>
          (let search_query = replace_str '' '' ''+'' song in
           (Inr ''continue'',
            speak (''Searching for '' @ song @ '' on YouTube'')
              (open_url (''https://www.youtube.com/results?search_query='' @ search_query) st))))"

text \<open>Lines 519 to 528.\<close>

definition converse_branch :: "world \<Rightarrow> assistant \<Rightarrow> string \<Rightarrow> handled" where
  "converse_branch env st command =
     (let context_type = context_type_of command;
          (response, st) = ask_llama env st command context_type
      in (Inr ''continue'', speak response st))"

text \<open>Lines 370 to 528: the chain of tests, in the order of the source.\<close>

definition handle_voice_command :: "world \<Rightarrow> assistant \<Rightarrow> string \<Rightarrow> handled" where
  "handle_voice_command env st command =
     (if any_in [''exit'', ''quit'', ''goodbye friday''] command then
        (Inr ''exit'', speak ''Goodbye boss, Friday is going offline!'' st)
      else if any_in [''stop listening'', ''sleep friday''] command then
        (Inr ''sleep'', speak ''I'll stop listening. Say 'Friday' to wake me up again.'' st)
      else if any_in [''open youtube'', ''youtube''] command then
        (Inr ''continue'', speak ''Opening YouTube'' (open_url ''https://youtube.com'' st))
      else if any_in [''open instagram'', ''instagram''] command then
        (Inr ''continue'', speak ''Opening Instagram'' (open_url ''https://instagram.com'' st))
      else if any_in [''open github'', ''github''] command then
        (Inr ''continue'', speak ''Opening GitHub'' (open_url ''https://github.com'' st))
      else if any_in [''open google'', ''google search''] command then google_branch st
      else if str_in ''time'' command then
        (Inr ''continue'', speak (''It's '' @ clock_time env) st)
      else if str_in ''date'' command then
        (Inr ''continue'', speak (''Today is '' @ clock_date env) st)
      else if str_in ''weather'' command then weather_branch env st command
      else if any_in [''calculate'', ''math'', ''what is'', ''plus'', ''minus'', ''times'', ''divide'']
                command then calculator_branch env st command
      else if any_in [''remind me'', ''set reminder''] command then reminder_branch st
      else if str_in ''volume up'' command then
        (Inr ''continue'', press_or_apologise env ''volumeup'' 3 ''Volume increased'' st)
      else if str_in ''volume down'' command then
        (Inr ''continue'', press_or_apologise env ''volumedown'' 3 ''Volume decreased'' st)
      else if str_in ''mute'' command then
        (Inr ''continue'', press_or_apologise env ''volumemute'' 1 ''Audio muted'' st)
      else if any_in [''tell me about'', ''information about''] command then
        wikipedia_branch env st command
      else if startswith command ''play'' then play_branch st command
      else converse_branch env st command)"

section \<open>\<open>run\<close>\<close>

text \<open>
  How \<open>run\<close> ends: the loop is left (\<open>break\<close>, or \<open>is_listening\<close> found false), or an
  exception that no handler of \<open>run\<close> catches leaves the method.
\<close>

datatype run_result = Terminated | Aborted string

text \<open>
  The \<open>while\<close> loop, with a bound on the number of iterations: \<open>None\<close> says the loop
  is still running when the bound is reached.
\<close>

fun run_loop :: "world \<Rightarrow> nat \<Rightarrow> assistant \<Rightarrow> (run_result \<times> assistant) option" where
  "run_loop env 0 st = (if \<not> is_listening st then Some (Terminated, st) else None)"
| "run_loop env (Suc n) st =
     (if \<not> is_listening st then Some (Terminated, st)
      else
        (let (wake_word, st) = listen st in
         if wake_word = ''timeout'' then run_loop env n st
         else if str_in ''friday'' wake_word then
           (let st = speak ''Yes boss, I'm listening!'' st;
                (command, st) = listen st
            in if command \<noteq> [] \<and> command \<noteq> ''timeout'' then
                 (case handle_voice_command env st command of
                    (Inr result, st) \<Rightarrow>
                      if result = ''exit'' then Some (Terminated, st)
                      else run_loop env n st
                  | (Inl e, st) \<Rightarrow>
                      if e = ''KeyboardInterrupt''
                      then Some (Terminated, speak ''Shutting down Friday assistant. Goodbye!'' st)
                      else Some (Aborted e, st))
               else run_loop env n (speak ''I'm ready when you are. Just say something!'' st))
         else run_loop env n st))"

definition run :: "world \<Rightarrow> nat \<Rightarrow> assistant \<Rightarrow> (run_result \<times> assistant) option" where
  "run env n st =
     (let st = speak ''Friday voice assistant activated! I'm powered by Llama2 AI and completely voice operated.'' st;
          st = speak ''Say 'Friday' to get my attention, then speak your command.'' st
      in run_loop env n st)"

section \<open>Notions used to state the properties\<close>

text \<open>
  A call of \<open>ask_llama\<close> is successful when a client is connected and the chat request
  raises nothing: these are the calls that reach lines 281 to 287.
\<close>

definition ask_succeeds :: "world \<Rightarrow> assistant \<Rightarrow> string \<Rightarrow> string \<Rightarrow> bool" where
  "ask_succeeds env st question context_type =
     (llama_client st \<and> chat env (chat_messages st question context_type) \<noteq> ChatFails)"

text \<open>A sequence of calls, each given by its question and its context type.\<close>

fun ask_all :: "world \<Rightarrow> assistant \<Rightarrow> (string \<times> string) list \<Rightarrow> assistant" where
  "ask_all env st [] = st"
| "ask_all env st ((question, context_type) # calls) =
     ask_all env (snd (ask_llama env st question context_type)) calls"

text \<open>
  The turns such a sequence produces, in chronological order: the question and the
  answer of every successful call.
\<close>

fun turns_of :: "world \<Rightarrow> assistant \<Rightarrow> (string \<times> string) list \<Rightarrow> (string \<times> string) list" where
  "turns_of env st [] = []"
| "turns_of env st ((question, context_type) # calls) =
     (if ask_succeeds env st question context_type
      then [(''user'', question), (''assistant'', fst (ask_llama env st question context_type))]
      else [])
     @ turns_of env (snd (ask_llama env st question context_type)) calls"

text \<open>
  The conditions of the branches of \<open>handle_voice_command\<close> that come before the play
  branch, and of all branches before the conversational one.
\<close>

definition before_play :: "string \<Rightarrow> bool" where
  "before_play command =
     (any_in [''exit'', ''quit'', ''goodbye friday''] command
      \<or> any_in [''stop listening'', ''sleep friday''] command
      \<or> any_in [''open youtube'', ''youtube''] command
      \<or> any_in [''open instagram'', ''instagram''] command
      \<or> any_in [''open github'', ''github''] command
      \<or> any_in [''open google'', ''google search''] command
      \<or> str_in ''time'' command
      \<or> str_in ''date'' command
      \<or> str_in ''weather'' command
      \<or> any_in [''calculate'', ''math'', ''what is'', ''plus'', ''minus'', ''times'', ''divide''] command
      \<or> any_in [''remind me'', ''set reminder''] command
      \<or> str_in ''volume up'' command
      \<or> str_in ''volume down'' command
      \<or> str_in ''mute'' command
      \<or> any_in [''tell me about'', ''information about''] command)"

definition keyword_branch :: "string \<Rightarrow> bool" where
  "keyword_branch command = (before_play command \<or> startswith command ''play'')"


subsection \<open>Concrete collaborators and a concrete state\<close>

text \<open>
  A host that rejects every source outside the concrete fragment of the evaluator, a
  world with fixed answers, and the assistant as \<open>__init__\<close> leaves it with a connected
  client, before the recogniser outcomes \<open>evs\<close>.
\<close>

definition strict_host :: "string \<Rightarrow> host_outcome" where
  "strict_host src = HostRaises ''SyntaxError''"

definition quiet_world :: world where
  "quiet_world =
     \<lparr>PYAUTOGUI_AVAILABLE = False, WIKIPEDIA_AVAILABLE = False, REQUESTS_AVAILABLE = True,
      chat = (\<lambda>messages. ChatMessage ''Sure.''),
      wikipedia_summary = (\<lambda>topic. None),
      requests_get = (\<lambda>url. WeatherFails),
      host_eval = strict_host,
      clock_time = ''10:30 AM'', clock_date = ''November 03, 2026''\<rparr>"

definition fresh_assistant :: "listen_event list \<Rightarrow> assistant" where
  "fresh_assistant evs =
     \<lparr>is_listening = True, conversation_context = [], llama_client = True,
      active_reminders = [], reminder_threads = [], heard = evs, trace = []\<rparr>"

text \<open>
  An assistant whose context holds one turn, and twelve questions to ask it.
\<close>

definition greeted_assistant :: assistant where
  "greeted_assistant = (fresh_assistant [])\<lparr>conversation_context := [(''assistant'', ''Hello.'')]\<rparr>"

definition twelve_calls :: "(string \<times> string) list" where
  "twelve_calls =
     [(''one'', ''general''), (''two'', ''task''), (''three'', ''general''),
      (''four'', ''general''), (''five'', ''general''), (''six'', ''creative''),
      (''seven'', ''general''), (''eight'', ''general''), (''nine'', ''general''),
      (''ten'', ''general''), (''eleven'', ''general''), (''twelve'', ''general'')]"

section \<open>The calculator\<close>

subsection \<open>Evaluating the examples\<close>

lemma normalize_five_plus_three: "normalize ''what is five plus three'' = ''5 + 3''"
  by code_simp

lemma normalize_ten_times_ten: "normalize ''calculate ten times ten'' = ''10 * 10''"
  by code_simp

lemma normalize_nineteen_plus_one: "normalize ''calculate nineteen plus one'' = ''9teen + 1''"
  by code_simp


lemma py_eval_five_plus_three: "py_eval host locals ''5 + 3'' = Value (PyInt 8)"
  by (simp add: py_eval_def isdigit_def glued_letter_def arith_char_def nat_of_digits_def
      digit_val_def)

lemma py_eval_ten_times_ten: "py_eval host locals ''10 * 10'' = Value (PyInt 100)"
  by (simp add: py_eval_def isdigit_def glued_letter_def arith_char_def nat_of_digits_def
      digit_val_def)

lemma py_eval_9teen: "py_eval host locals ''9teen + 1'' = Raises ''SyntaxError''"
  by (simp add: py_eval_def isdigit_def glued_letter_def arith_char_def)

lemma show_int_8: "show_int 8 = ''8''"
  by (simp add: show_int_def show_nat.simps)

lemma show_int_100: "show_int 100 = ''100''"
  by (simp add: show_int_def show_nat.simps)

text \<open>
  Claim C3. \<open>voice_calculator("what is five plus three")\<close> normalises its input to
  \<open>5 + 3\<close>, evaluates it to 8 and returns "The answer is 8";
  \<open>voice_calculator("calculate ten times ten")\<close> normalises to \<open>10 * 10\<close>, evaluates
  to 100 and returns "The answer is 100". Both hold whatever the host evaluator does
  outside the arithmetic fragment.
\<close>

theorem voice_calculator_examples:
  "normalize ''what is five plus three'' = ''5 + 3''
   \<and> py_eval host (calc_locals ''5 + 3'') ''5 + 3'' = Value (PyInt 8)
   \<and> voice_calculator host ''what is five plus three'' = Inr ''The answer is 8''
   \<and> normalize ''calculate ten times ten'' = ''10 * 10''
   \<and> py_eval host (calc_locals ''10 * 10'') ''10 * 10'' = Value (PyInt 100)
   \<and> voice_calculator host ''calculate ten times ten'' = Inr ''The answer is 100''"
  by (simp add: voice_calculator_def normalize_five_plus_three normalize_ten_times_ten
      py_eval_five_plus_three py_eval_ten_times_ten show_int_8 show_int_100)

subsection \<open>Number words\<close>

text \<open>
  The loop replaces the words in dictionary order, so \<open>four\<close>, \<open>six\<close>, \<open>seven\<close>,
  \<open>eight\<close> and \<open>nine\<close> are rewritten before the longer words that contain them are
  tried. These are the entries of \<open>word_to_num\<close> whose word is not read as its number:
\<close>

lemma unread_number_words:
  "filter (\<lambda>(word, num). normalize word \<noteq> num) word_to_num =
     [(''fourteen'', ''14''), (''sixteen'', ''16''), (''seventeen'', ''17''),
      (''eighteen'', ''18''), (''nineteen'', ''19'')]"
  by code_simp

text \<open>
  Claim C4 says that every number word from zero to twenty is read as its digit string,
  so that "calculate nineteen plus one" yields "The answer is 20". The dictionary does
  map \<open>nineteen\<close> to \<open>19\<close>, but the normalised expression is \<open>9teen + 1\<close>, which is
  not an expression, and the method returns the failure message.
\<close>

theorem nineteen_plus_one_fails:
  "map_of word_to_num ''nineteen'' = Some ''19''
   \<and> normalize ''calculate nineteen plus one'' = ''9teen + 1''
   \<and> voice_calculator host ''calculate nineteen plus one'' = Inr calc_failure
   \<and> voice_calculator host ''calculate nineteen plus one'' \<noteq> Inr ''The answer is 20''"
  by (simp add: voice_calculator_def normalize_nineteen_plus_one py_eval_9teen word_to_num_def
      calc_failure_def)

subsection \<open>What the method can return\<close>








section \<open>Facts about the string primitives\<close>



section \<open>The weather report\<close>

text \<open>
  Claim C7. The key written in \<open>get_weather\<close> is the placeholder, so whenever the
  \<open>requests\<close> package is importable the method returns, for every city, exactly
  "Please configure weather API key for weather updates." and requests no URL.
\<close>

theorem weather_without_key:
  "REQUESTS_AVAILABLE env \<longrightarrow>
     get_weather env city = (''Please configure weather API key for weather updates.'', [])
     \<and> get_weather_with ''YOUR_WEATHER_API_KEY'' env city
         = (''Please configure weather API key for weather updates.'', [])"
  by (simp add: get_weather_def get_weather_with_def)

theorem weather_without_key_witness:
  "REQUESTS_AVAILABLE quiet_world
   \<and> get_weather quiet_world ''Paris''
       = (''Please configure weather API key for weather updates.'', [])"
  using weather_without_key [of quiet_world "''Paris''"] by (simp add: quiet_world_def)

section \<open>Reminders\<close>




section \<open>The conversation context\<close>

lemma last_n_short: "length xs \<le> n \<Longrightarrow> last_n n xs = xs"
  by (simp add: last_n_def)

lemma length_last_n: "length (last_n n xs) \<le> n"
  by (simp add: last_n_def)

lemma last_n_absorb: "last_n n (last_n n xs @ ys) = last_n n (xs @ ys)"
  by (cases "length xs \<le> n") (auto simp: last_n_def add.commute)

lemma update_context_last_n:
  "length ctx \<le> 20 \<Longrightarrow>
     update_context question ai_response ctx
       = last_n 20 (ctx @ [(''user'', question), (''assistant'', ai_response)])"
  by (auto simp: update_context_def Let_def last_n_def)

lemma ask_llama_context:
  "conversation_context (snd (ask_llama env st question context_type)) =
     (if ask_succeeds env st question context_type
      then update_context question (fst (ask_llama env st question context_type))
             (conversation_context st)
      else conversation_context st)"
  by (auto simp: ask_llama_def ask_succeeds_def Let_def split: chat_response.splits option.splits)

lemma ask_llama_step:
  assumes "length (conversation_context st) \<le> 20"
  shows "conversation_context (snd (ask_llama env st question context_type)) =
     last_n 20 (conversation_context st @
       (if ask_succeeds env st question context_type
        then [(''user'', question), (''assistant'', fst (ask_llama env st question context_type))]
        else []))"
  using assms by (simp add: ask_llama_context update_context_last_n last_n_short)

lemma ask_all_context:
  "length (conversation_context st) \<le> 20 \<Longrightarrow>
     conversation_context (ask_all env st calls)
       = last_n 20 (conversation_context st @ turns_of env st calls)"
proof (induction calls arbitrary: st)
  case Nil
  then show ?case by (simp add: last_n_short)
next
  case (Cons call calls)
  obtain question context_type where call: "call = (question, context_type)"
    by (cases call)
  let ?st = "snd (ask_llama env st question context_type)"
  let ?t = "if ask_succeeds env st question context_type
        then [(''user'', question), (''assistant'', fst (ask_llama env st question context_type))]
        else []"
  have step: "conversation_context ?st = last_n 20 (conversation_context st @ ?t)"
    using Cons.prems by (rule ask_llama_step)
  then have "length (conversation_context ?st) \<le> 20"
    by (simp add: length_last_n)
  then have "conversation_context (ask_all env ?st calls)
       = last_n 20 (conversation_context ?st @ turns_of env ?st calls)"
    by (rule Cons.IH)
  also have "\<dots> = last_n 20 ((conversation_context st @ ?t) @ turns_of env ?st calls)"
    unfolding step by (rule last_n_absorb)
  finally show ?case by (simp add: call)
qed

text \<open>
  Claim C2. Starting from a context of at most 20 entries (it is empty after
  \<open>__init__\<close>), after any sequence of \<open>ask_llama\<close> calls the context holds at most 20
  entries and is exactly the last 20 of the old entries followed, in order, by the user
  turn and the assistant turn of every successful call; in particular, when these are
  25 turns altogether, it is the last 20 of them (the first 5 are dropped). One
  successful call appends its two turns and cuts to the last 20; a call that fails
  leaves the context as it is.
\<close>

theorem context_keeps_last_20_turns:
  assumes "length (conversation_context st) \<le> 20"
  shows "length (conversation_context (ask_all env st calls)) \<le> 20
    \<and> conversation_context (ask_all env st calls)
        = last_n 20 (conversation_context st @ turns_of env st calls)
    \<and> (length (conversation_context st @ turns_of env st calls) = 25 \<longrightarrow>
         conversation_context (ask_all env st calls)
           = drop 5 (conversation_context st @ turns_of env st calls))
    \<and> (ask_succeeds env st question context_type \<longrightarrow>
         conversation_context (snd (ask_llama env st question context_type))
           = last_n 20 (conversation_context st
               @ [(''user'', question),
                  (''assistant'', fst (ask_llama env st question context_type))]))
    \<and> (\<not> ask_succeeds env st question context_type \<longrightarrow>
         conversation_context (snd (ask_llama env st question context_type))
           = conversation_context st)"
proof -
  have a: "conversation_context (ask_all env st calls)
        = last_n 20 (conversation_context st @ turns_of env st calls)"
    using assms by (rule ask_all_context)
  then have b: "length (conversation_context (ask_all env st calls)) \<le> 20"
    by (simp add: length_last_n)
  have c: "length (conversation_context st @ turns_of env st calls) = 25 \<longrightarrow>
         conversation_context (ask_all env st calls)
           = drop 5 (conversation_context st @ turns_of env st calls)"
    unfolding a by (simp add: last_n_def)
  have d: "ask_succeeds env st question context_type \<longrightarrow>
         conversation_context (snd (ask_llama env st question context_type))
           = last_n 20 (conversation_context st
               @ [(''user'', question),
                  (''assistant'', fst (ask_llama env st question context_type))])"
    using ask_llama_step [OF assms, of env question context_type] by simp
  have e: "\<not> ask_succeeds env st question context_type \<longrightarrow>
         conversation_context (snd (ask_llama env st question context_type))
           = conversation_context st"
    by (simp add: ask_llama_context)
  from a b c d e show ?thesis by blast
qed


theorem context_keeps_last_20_turns_witness:
  "length (conversation_context greeted_assistant) \<le> 20
   \<and> length (conversation_context greeted_assistant
        @ turns_of quiet_world greeted_assistant twelve_calls) = 25
   \<and> conversation_context (ask_all quiet_world greeted_assistant twelve_calls)
       = [(''user'', ''three''), (''assistant'', ''Sure.''),
          (''user'', ''four''), (''assistant'', ''Sure.''),
          (''user'', ''five''), (''assistant'', ''Sure.''),
          (''user'', ''six''), (''assistant'', ''Sure.''),
          (''user'', ''seven''), (''assistant'', ''Sure.''),
          (''user'', ''eight''), (''assistant'', ''Sure.''),
          (''user'', ''nine''), (''assistant'', ''Sure.''),
          (''user'', ''ten''), (''assistant'', ''Sure.''),
          (''user'', ''eleven''), (''assistant'', ''Sure.''),
          (''user'', ''twelve''), (''assistant'', ''Sure.'')]"
proof -
  have h: "length (conversation_context greeted_assistant) \<le> 20"
    by (simp add: greeted_assistant_def fresh_assistant_def)
  have c: "conversation_context greeted_assistant = [(''assistant'', ''Hello.'')]"
    by (simp add: greeted_assistant_def fresh_assistant_def)
  have t: "turns_of quiet_world greeted_assistant twelve_calls
       = [(''user'', ''one''), (''assistant'', ''Sure.''),
          (''user'', ''two''), (''assistant'', ''Sure.''),
          (''user'', ''three''), (''assistant'', ''Sure.''),
          (''user'', ''four''), (''assistant'', ''Sure.''),
          (''user'', ''five''), (''assistant'', ''Sure.''),
          (''user'', ''six''), (''assistant'', ''Sure.''),
          (''user'', ''seven''), (''assistant'', ''Sure.''),
          (''user'', ''eight''), (''assistant'', ''Sure.''),
          (''user'', ''nine''), (''assistant'', ''Sure.''),
          (''user'', ''ten''), (''assistant'', ''Sure.''),
          (''user'', ''eleven''), (''assistant'', ''Sure.''),
          (''user'', ''twelve''), (''assistant'', ''Sure.'')]"
    by code_simp
  from context_keeps_last_20_turns
         [where st = greeted_assistant and env = quiet_world and calls = twelve_calls
            and question = "''one''" and context_type = "''general''", OF h] c t
  show ?thesis by (simp add: last_n_def)
qed

section \<open>The command router\<close>

subsection \<open>What the branches return\<close>

text \<open>
  Every branch but the first two returns \<open>continue\<close>, and no method called on the way
  assigns \<open>is_listening\<close>.
\<close>

lemma speak_fields:
  "is_listening (speak text st) = is_listening st"
  "heard (speak text st) = heard st"
  "trace (speak text st) = trace st @ [Speak text]"
  by (simp_all add: speak_def)
















subsection \<open>The chain of tests\<close>

lemma handle_exit:
  "any_in [''exit'', ''quit'', ''goodbye friday''] command \<Longrightarrow>
     handle_voice_command env st command
       = (Inr ''exit'', speak ''Goodbye boss, Friday is going offline!'' st)"
  by (simp add: handle_voice_command_def)






subsection \<open>The conversational branch\<close>

lemma handle_converse:
  "\<not> keyword_branch command \<Longrightarrow>
     handle_voice_command env st command = converse_branch env st command"
  by (simp add: keyword_branch_def before_play_def handle_voice_command_def)

text \<open>
  Claim C9. A command that meets the condition of no branch before the last one (it
  holds none of their keywords and does not start with "play") is answered by
  \<open>ask_llama\<close>, spoken, and \<open>continue\<close> is returned. The context type passed is found
  by a second scan, the task cues being tested first: \<open>task\<close> if the command contains
  "how to", "steps", "guide" or "tutorial"; otherwise \<open>creative\<close> if it contains
  "story", "poem", "creative" or "imagine"; otherwise \<open>general\<close>.
\<close>

theorem unmatched_command_is_conversation:
  assumes "\<not> keyword_branch command"
  shows "handle_voice_command env st command
           = (Inr ''continue'',
              speak (fst (ask_llama env st command (context_type_of command)))
                (snd (ask_llama env st command (context_type_of command))))
    \<and> (any_in [''how to'', ''steps'', ''guide'', ''tutorial''] command
        \<longrightarrow> context_type_of command = ''task'')
    \<and> (\<not> any_in [''how to'', ''steps'', ''guide'', ''tutorial''] command
        \<and> any_in [''story'', ''poem'', ''creative'', ''imagine''] command
        \<longrightarrow> context_type_of command = ''creative'')
    \<and> (\<not> any_in [''how to'', ''steps'', ''guide'', ''tutorial''] command
        \<and> \<not> any_in [''story'', ''poem'', ''creative'', ''imagine''] command
        \<longrightarrow> context_type_of command = ''general'')"
  using assms
  by (simp add: handle_converse converse_branch_def Let_def case_prod_beta context_type_of_def)

theorem unmatched_command_is_conversation_witness:
  "\<not> keyword_branch ''write me a poem''
   \<and> context_type_of ''write me a poem'' = ''creative''
   \<and> handle_voice_command quiet_world (fresh_assistant []) ''write me a poem''
       = (Inr ''continue'',
          \<lparr>is_listening = True,
           conversation_context = [(''user'', ''write me a poem''), (''assistant'', ''Sure.'')],
           llama_client = True, active_reminders = [], reminder_threads = [], heard = [],
           trace = [Speak ''Sure.'']\<rparr>)"
proof -
  have k: "\<not> keyword_branch ''write me a poem''" by code_simp
  have a: "ask_llama quiet_world (fresh_assistant []) ''write me a poem'' ''creative''
       = (''Sure.'',
          \<lparr>is_listening = True,
           conversation_context = [(''user'', ''write me a poem''), (''assistant'', ''Sure.'')],
           llama_client = True, active_reminders = [], reminder_threads = [], heard = [],
           trace = []\<rparr>)"
    by code_simp
  have p: "any_in [''story'', ''poem'', ''creative'', ''imagine''] ''write me a poem''
        \<and> \<not> any_in [''how to'', ''steps'', ''guide'', ''tutorial''] ''write me a poem''"
    by (simp add: any_in_def)
  from unmatched_command_is_conversation
         [OF k, where env = quiet_world and st = "fresh_assistant []"] p k
  show ?thesis by (simp add: a speak_def)
qed

section \<open>The session loop\<close>

lemma listen_recognized:
  "heard st = Recognized said # rest \<Longrightarrow> listen st = (strip (lower said), st\<lparr>heard := rest\<rparr>)"
  by (simp add: listen_def)

lemma exit_keyword_not_silence:
  "any_in [''exit'', ''quit'', ''goodbye friday''] command \<Longrightarrow> command \<noteq> [] \<and> command \<noteq> ''timeout''"
  by (auto simp: any_in_def)

lemma wake_word_not_timeout: "str_in ''friday'' wake_word \<Longrightarrow> wake_word \<noteq> ''timeout''"
  by auto

text \<open>
  Claim C1. For every command that contains "exit", "quit" or "goodbye friday",
  \<open>handle_voice_command\<close> says goodbye and returns \<open>exit\<close>, whatever else the command
  contains and whatever the state and the collaborators are. When \<open>run\<close> hears the wake
  word and then such a command, its loop ends in that iteration: for every bound of at
  least one iteration \<open>run\<close> returns, having spoken its two greetings, the
  acknowledgement and the goodbye, and having consumed exactly the two utterances.
\<close>

theorem exit_keyword_ends_session:
  assumes "any_in [''exit'', ''quit'', ''goodbye friday''] command"
  shows "handle_voice_command env st command
           = (Inr ''exit'', speak ''Goodbye boss, Friday is going offline!'' st)
    \<and> (is_listening st0 \<and> heard st0 = Recognized said_first # Recognized said_next # rest
         \<and> str_in ''friday'' (strip (lower said_first)) \<and> strip (lower said_next) = command
       \<longrightarrow> (\<exists>st'. run env (Suc n) st0 = Some (Terminated, st') \<and> heard st' = rest
              \<and> trace st' = trace st0 @
                 [Speak ''Friday voice assistant activated! I'm powered by Llama2 AI and completely voice operated.'',
                  Speak ''Say 'Friday' to get my attention, then speak your command.'',
                  Speak ''Yes boss, I'm listening!'',
                  Speak ''Goodbye boss, Friday is going offline!'']))"
proof (intro conjI impI)
  show "handle_voice_command env st command
           = (Inr ''exit'', speak ''Goodbye boss, Friday is going offline!'' st)"
    using assms by (rule handle_exit)
next
  assume a: "is_listening st0 \<and> heard st0 = Recognized said_first # Recognized said_next # rest
         \<and> str_in ''friday'' (strip (lower said_first)) \<and> strip (lower said_next) = command"
  let ?s0 = "speak ''Say 'Friday' to get my attention, then speak your command.''
               (speak ''Friday voice assistant activated! I'm powered by Llama2 AI and completely voice operated.'' st0)"
  let ?s1 = "?s0\<lparr>heard := Recognized said_next # rest\<rparr>"
  let ?s2 = "speak ''Yes boss, I'm listening!'' ?s1"
  let ?s3 = "?s2\<lparr>heard := rest\<rparr>"
  let ?s4 = "speak ''Goodbye boss, Friday is going offline!'' ?s3"
  have h0: "heard ?s0 = Recognized said_first # Recognized said_next # rest"
    and i0: "is_listening ?s0"
    using a by (simp_all add: speak_fields)
  have l1: "listen ?s0 = (strip (lower said_first), ?s1)"
    using h0 by (rule listen_recognized)
  have l2: "listen ?s2 = (command, ?s3)"
    using a listen_recognized [of ?s2 said_next rest] by (simp add: speak_def)
  have w: "strip (lower said_first) \<noteq> ''timeout''"
    using a wake_word_not_timeout by blast
  have c: "command \<noteq> [] \<and> command \<noteq> ''timeout''"
    using assms by (rule exit_keyword_not_silence)
  have h: "handle_voice_command env ?s3 command = (Inr ''exit'', ?s4)"
    using assms by (rule handle_exit)
  have "run env (Suc n) st0 = Some (Terminated, ?s4)"
    using a i0 w c by (simp add: run_def Let_def l1 l2 h)
  moreover have "heard ?s4 = rest" by (simp add: speak_def)
  moreover have "trace ?s4 = trace st0 @
                 [Speak ''Friday voice assistant activated! I'm powered by Llama2 AI and completely voice operated.'',
                  Speak ''Say 'Friday' to get my attention, then speak your command.'',
                  Speak ''Yes boss, I'm listening!'',
                  Speak ''Goodbye boss, Friday is going offline!'']"
    by (simp add: speak_def)
  ultimately show "\<exists>st'. run env (Suc n) st0 = Some (Terminated, st') \<and> heard st' = rest
              \<and> trace st' = trace st0 @
                 [Speak ''Friday voice assistant activated! I'm powered by Llama2 AI and completely voice operated.'',
                  Speak ''Say 'Friday' to get my attention, then speak your command.'',
                  Speak ''Yes boss, I'm listening!'',
                  Speak ''Goodbye boss, Friday is going offline!'']"
    by blast
qed

theorem exit_keyword_ends_session_witness:
  "any_in [''exit'', ''quit'', ''goodbye friday''] ''goodbye friday''
   \<and> fst (handle_voice_command quiet_world (fresh_assistant []) ''goodbye friday'') = Inr ''exit''
   \<and> map_option fst
        (run quiet_world (Suc 0)
           (fresh_assistant [Recognized ''Hey Friday'', Recognized ''Goodbye Friday'']))
       = Some Terminated"
proof -
  have k: "any_in [''exit'', ''quit'', ''goodbye friday''] ''goodbye friday''"
    by (simp add: any_in_def)
  have w: "str_in ''friday'' (strip (lower ''Hey Friday''))" by code_simp
  have c: "strip (lower ''Goodbye Friday'') = ''goodbye friday''" by code_simp
  from exit_keyword_ends_session
         [OF k, where env = quiet_world and st = "fresh_assistant []"
            and ?st0.0 = "fresh_assistant [Recognized ''Hey Friday'', Recognized ''Goodbye Friday'']"
            and said_first = "''Hey Friday''" and said_next = "''Goodbye Friday''"
            and rest = "[]" and n = 0] w c k
  show ?thesis by (auto simp: fresh_assistant_def)
qed




section \<open>The play branch\<close>

lemma replace_ne_absent:
  "old \<noteq> [] \<Longrightarrow> \<not> str_in old s \<Longrightarrow> replace_ne old new s = s"
  by (induction s) auto

lemma remove_play_after_play:
  assumes "\<not> str_in ''play'' title"
  shows "replace_str ''play'' [] (''play '' @ title) = CHR '' '' # title"
proof -
  have "replace_ne ''play'' [] title = title"
    using assms by (simp add: replace_ne_absent)
  then show ?thesis by (simp add: replace_str_def)
qed

lemma strip_leading_blank: "strip (CHR '' '' # s) = strip s"
  by (simp add: strip_def isspace_def)

lemma handle_play:
  "\<not> before_play command \<Longrightarrow> startswith command ''play'' \<Longrightarrow>
     handle_voice_command env st command = play_branch st command"
  by (simp add: before_play_def handle_voice_command_def)

lemma play_branch_title:
  assumes "\<not> str_in ''play'' title"
  shows "play_branch st (''play '' @ title) =
     (case map_of music (strip title) of
        Some url \<Rightarrow>
          (Inr ''continue'', speak (''Playing '' @ strip title) (open_url url st))
      | None \<Rightarrow>
          (Inr ''continue'',
           speak (''Searching for '' @ strip title @ '' on YouTube'')
             (open_url (''https://www.youtube.com/results?search_query=''
                          @ replace_str '' '' ''+'' (strip title)) st)))"
  using remove_play_after_play [OF assms]
  by (simp add: play_branch_def Let_def strip_leading_blank split: option.splits)

lemma library_titles_reach_play:
  "list_all (\<lambda>(title, url). \<not> str_in ''play'' title \<longrightarrow>
       \<not> before_play (''play '' @ title) \<and> strip title = title \<and> map_of music title = Some url)
     music"
  by code_simp

text \<open>
  Two titles of the library contain "play" themselves. \<open>replace\<close> removes every
  occurrence, so for them the text looked up is not the title: "play my playlist" looks
  up "my list" (see \<open>my_playlist_is_searched\<close> below).
\<close>

lemma titles_with_play:
  "filter (\<lambda>(title, url). str_in ''play'' title) music =
     [(''my playlist'', ''https://youtu.be/AbkEmIgJMcU?si=V6ETJmVWDU2zOEtq''),
      (''workout playlist'', ''https://youtu.be/iFGc9vpN338'')]"
  by code_simp

text \<open>
  Claim C6 says that for every title not in the mapping, "play " followed by the title
  opens the fallback search URL. The title "time after time" is not in the mapping, but
  the command contains "time", so the time branch, which is tested earlier, takes it:
  the assistant says the time and opens no URL.
\<close>

theorem play_time_after_time_counterexample:
  "map_of music ''time after time'' = None
   \<and> handle_voice_command quiet_world (fresh_assistant []) ''play time after time''
       = (Inr ''continue'', speak ''It's 10:30 AM'' (fresh_assistant []))
   \<and> trace (snd (handle_voice_command quiet_world (fresh_assistant []) ''play time after time''))
       = [Speak ''It's 10:30 AM'']"
  by code_simp

text \<open>
  Claim C6, amended. For every entry of the music mapping whose title does not contain
  "play", the command "play " followed by the title opens exactly the URL mapped to the
  title and announces it. For every title that does not contain "play", whose command
  meets the condition of no earlier branch and whose text without surrounding blanks is
  not a key of the mapping, the command opens the YouTube search URL for that text with
  each blank replaced by "+".
\<close>

theorem play_looks_up_trailing_text:
  "((title, url) \<in> set music \<and> \<not> str_in ''play'' title \<longrightarrow>
      handle_voice_command env st (''play '' @ title)
        = (Inr ''continue'', speak (''Playing '' @ title) (open_url url st)))
   \<and> (\<not> before_play (''play '' @ title) \<and> \<not> str_in ''play'' title
        \<and> map_of music (strip title) = None \<longrightarrow>
      handle_voice_command env st (''play '' @ title)
        = (Inr ''continue'',
           speak (''Searching for '' @ strip title @ '' on YouTube'')
             (open_url (''https://www.youtube.com/results?search_query=''
                          @ replace_str '' '' ''+'' (strip title)) st)))"
proof (intro conjI impI)
  assume a: "(title, url) \<in> set music \<and> \<not> str_in ''play'' title"
  then have "\<not> before_play (''play '' @ title) \<and> strip title = title
             \<and> map_of music title = Some url"
    using library_titles_reach_play by (auto simp: list_all_iff)
  moreover have "startswith (''play '' @ title) ''play''"
    by (simp add: startswith_def)
  ultimately show "handle_voice_command env st (''play '' @ title)
        = (Inr ''continue'', speak (''Playing '' @ title) (open_url url st))"
    using a handle_play [of "''play '' @ title" env st] play_branch_title [of title st]
    by simp
next
  assume b: "\<not> before_play (''play '' @ title) \<and> \<not> str_in ''play'' title
        \<and> map_of music (strip title) = None"
  moreover have "startswith (''play '' @ title) ''play''"
    by (simp add: startswith_def)
  ultimately show "handle_voice_command env st (''play '' @ title)
        = (Inr ''continue'',
           speak (''Searching for '' @ strip title @ '' on YouTube'')
             (open_url (''https://www.youtube.com/results?search_query=''
                          @ replace_str '' '' ''+'' (strip title)) st))"
    using handle_play [of "''play '' @ title" env st] play_branch_title [of title st]
    by simp
qed

theorem play_looks_up_trailing_text_witness:
  "(''shape of you'', ''https://youtu.be/JGwWNGJdvx8'') \<in> set music
   \<and> \<not> str_in ''play'' ''shape of you''
   \<and> trace (snd (handle_voice_command quiet_world (fresh_assistant []) ''play shape of you''))
       = [OpenUrl ''https://youtu.be/JGwWNGJdvx8'', Speak ''Playing shape of you'']"
proof -
  have m: "(''shape of you'', ''https://youtu.be/JGwWNGJdvx8'') \<in> set music"
    by (simp add: music_def)
  have p: "\<not> str_in ''play'' ''shape of you''" by simp
  from play_looks_up_trailing_text
         [where title = "''shape of you''" and url = "''https://youtu.be/JGwWNGJdvx8''"
            and env = quiet_world and st = "fresh_assistant []"] m p
  show ?thesis by (simp add: speak_def open_url_def fresh_assistant_def)
qed

lemma unknown_title_example:
  "handle_voice_command env st ''play some unknown title''
     = (Inr ''continue'',
        speak ''Searching for some unknown title on YouTube''
          (open_url ''https://www.youtube.com/results?search_query=some+unknown+title'' st))"
proof -
  have b: "\<not> before_play (''play '' @ ''some unknown title'')" by code_simp
  have p: "\<not> str_in ''play'' ''some unknown title''" by simp
  have s: "strip ''some unknown title'' = ''some unknown title''" by code_simp
  have m: "map_of music ''some unknown title'' = None" by code_simp
  have r: "replace_str '' '' ''+'' ''some unknown title'' = ''some+unknown+title''" by code_simp
  from b p s m r handle_play [of "''play some unknown title''" env st]
    play_branch_title [of "''some unknown title''" st]
  show ?thesis by (simp add: startswith_def)
qed

lemma my_playlist_is_searched:
  "map_of music ''my playlist'' = Some ''https://youtu.be/AbkEmIgJMcU?si=V6ETJmVWDU2zOEtq''
   \<and> handle_voice_command quiet_world (fresh_assistant []) ''play my playlist''
       = (Inr ''continue'',
          speak ''Searching for my list on YouTube''
            (open_url ''https://www.youtube.com/results?search_query=my+list'' (fresh_assistant [])))"
  by code_simp

end
